theory Spec2Isabelle
  imports Main "HOL-Library.AList" "HOL-Library.Multiset"
begin

section \<open>Strings\<close>

text \<open>
  JavaScript strings are modelled as HOL strings (lists of 8-bit characters), so the
  embedding covers ASCII field names and markup. \<open>toUpperCase\<close> maps the letters
  \<open>a\<close> to \<open>z\<close> and leaves every other character alone.
\<close>

fun startsWith :: "string \<Rightarrow> string \<Rightarrow> bool" where
  "startsWith s [] = True"
| "startsWith [] (p # ps) = False"
| "startsWith (c # cs) (p # ps) = (c = p \<and> startsWith cs ps)"

definition endsWith :: "string \<Rightarrow> string \<Rightarrow> bool" where
  "endsWith s p = startsWith (rev s) (rev p)"

definition toUpperCase_char :: "char \<Rightarrow> char" where
  "toUpperCase_char c =
     (case map_of (zip ''abcdefghijklmnopqrstuvwxyz'' ''ABCDEFGHIJKLMNOPQRSTUVWXYZ'') c of
        Some u \<Rightarrow> u
      | None \<Rightarrow> c)"

definition toUpperCase :: "string \<Rightarrow> string" where
  "toUpperCase s = map toUpperCase_char s"

definition toLowerCase_char :: "char \<Rightarrow> char" where
  "toLowerCase_char c =
     (case map_of (zip ''ABCDEFGHIJKLMNOPQRSTUVWXYZ'' ''abcdefghijklmnopqrstuvwxyz'') c of
        Some u \<Rightarrow> u
      | None \<Rightarrow> c)"

definition toLowerCase :: "string \<Rightarrow> string" where
  "toLowerCase s = map toLowerCase_char s"

definition isWhiteSpace :: "char \<Rightarrow> bool" where
  "isWhiteSpace c = (c \<in> set [CHR '' '', CHR 0x09, CHR 0x0A, CHR 0x0B, CHR 0x0C, CHR 0x0D])"

definition trim :: "string \<Rightarrow> string" where
  "trim s = rev (dropWhile isWhiteSpace (rev (dropWhile isWhiteSpace s)))"

section \<open>The parsed markup\<close>

text \<open>
  The DOM tree that \<open>DOMParser.parseFromString\<close> returns: an element has a tag name and
  child nodes; text nodes carry character data; comments carry none. Attributes play no
  part in the code and are left out. For markup that is not well-formed the parser does
  not throw: it returns a document that holds a \<open>parsererror\<close> element.
\<close>

datatype node = Element string "node list" | Text string | Comment string

type_synonym document = "node list"

text \<open>\<open>getElementsByTagName("*")\<close>: every element, in document order (preorder).\<close>

fun elementsOf :: "node \<Rightarrow> node list" where
  "elementsOf (Element t cs) = Element t cs # concat (map elementsOf cs)"
| "elementsOf (Text d) = []"
| "elementsOf (Comment d) = []"

definition allElements :: "document \<Rightarrow> node list" where
  "allElements doc = concat (map elementsOf doc)"

fun tagName :: "node \<Rightarrow> string" where
  "tagName (Element t cs) = t"
| "tagName (Text d) = []"
| "tagName (Comment d) = []"

fun childNodes :: "node \<Rightarrow> node list" where
  "childNodes (Element t cs) = cs"
| "childNodes (Text d) = []"
| "childNodes (Comment d) = []"

text \<open>\<open>node.getElementsByTagName(name)\<close>: the descendants of the node with that tag name,
  in document order; the node itself is not among them.\<close>

definition getElementsByTagName :: "node \<Rightarrow> string \<Rightarrow> node list" where
  "getElementsByTagName n name =
     filter (\<lambda>e. tagName e = name) (concat (map elementsOf (childNodes n)))"

fun textContent :: "node \<Rightarrow> string" where
  "textContent (Element t cs) = concat (map textContent cs)"
| "textContent (Text d) = d"
| "textContent (Comment d) = []"

section \<open>The collaborator\<close>

datatype exn = Error string

text \<open>
  Modelled from the spec: the document handle of the rendering collaborator (the DYMO
  framework, which is not part of the repository). A label is its objects in document
  order, each with a name and its text; \<open>None\<close> stands for an object whose text accessors
  raise. \<open>getObjectText\<close> and \<open>setObjectText\<close> raise for a name the label does not have.
\<close>

type_synonym label = "(string \<times> string option) list"

definition getObjectNames :: "label \<Rightarrow> string list" where
  "getObjectNames l = map fst l"

definition getObjectText :: "label \<Rightarrow> string \<Rightarrow> exn + string" where
  "getObjectText l name =
     (case map_of l name of
        Some (Some t) \<Rightarrow> Inr t
      | Some None \<Rightarrow> Inl (Error ''unsupported object type'')
      | None \<Rightarrow> Inl (Error ''no object with this name''))"

definition setObjectText :: "label \<Rightarrow> string \<Rightarrow> string \<Rightarrow> exn + label" where
  "setObjectText l name v =
     (case map_of l name of
        Some (Some t) \<Rightarrow> Inr (AList.update name (Some v) l)
      | Some None \<Rightarrow> Inl (Error ''unsupported object type'')
      | None \<Rightarrow> Inl (Error ''no object with this name''))"

datatype print_params = NoParams | LabelWriterPrintParams int

section \<open>Form controls\<close>

datatype input_type = Checkbox | Textarea

text \<open>
  An element of the form that carries \<open>data-field-name\<close>: the name that
  \<open>dataset.fieldName\<close> reads, its \<open>type\<close> (a checkbox or not), and what the user has made
  of it (\<open>checked\<close> for a checkbox, \<open>value\<close> otherwise).
\<close>

record control =
  fieldName :: string
  inputType :: input_type
  checked :: bool
  inputValue :: string

section \<open>The environment\<close>

text \<open>
  What the browser and the framework supply, taken as parameters: the XML parser (a
  document, also for markup that is not well-formed; \<open>Inl\<close> should the call throw), the
  framework's \<open>openLabelXml\<close>, the HTML parser behind \<open>innerHTML\<close> (the elements with
  \<open>data-field-name\<close> that it builds from a markup string, in document order), the locale's
  string comparison, whether the framework offers \<open>createLabelWriterPrintParamsXml\<close>, and
  the outcomes of rendering and printing.
\<close>

record env =
  parseFromString :: "string \<Rightarrow> exn + document"
  parseControls :: "string \<Rightarrow> control list"
  openLabelXml :: "string \<Rightarrow> exn + label"
  localeCompare :: "string \<Rightarrow> string \<Rightarrow> int"
  hasPrintParamsXml :: bool
  renderAsync :: "label \<Rightarrow> exn + string"
  printResult :: "label \<Rightarrow> string \<Rightarrow> print_params \<Rightarrow> exn option"

section \<open>Field Extractor: parseObjectTypes\<close>

text \<open>
  An object literal \<open>{}\<close> used as a dictionary is a map from keys to values. The
  assignment \<open>obj[key] = value\<close> of a string stores an entry, except for the key
  \<open>__proto__\<close>: that assignment goes to the accessor on the prototype, which ignores a
  string, and the object gets no entry.
\<close>

definition assign :: "string \<Rightarrow> string \<Rightarrow> (string \<rightharpoonup> string) \<Rightarrow> (string \<rightharpoonup> string)" where
  "assign key v obj = (if key = ''__proto__'' then obj else obj(key \<mapsto> v))"

text \<open>The body of the loop of \<open>parseObjectTypes\<close>, for one element of the list:\<close>

definition recordType :: "node \<Rightarrow> (string \<rightharpoonup> string) \<Rightarrow> (string \<rightharpoonup> string)" where
  "recordType n types =
     (if endsWith (tagName n) ''Object'' then
        (case getElementsByTagName n ''Name'' of
           [] \<Rightarrow> types
         | nameNode # rest \<Rightarrow> assign (textContent nameNode) (tagName n) types)
      else types)"

fun recordTypes :: "node list \<Rightarrow> (string \<rightharpoonup> string) \<Rightarrow> (string \<rightharpoonup> string)" where
  "recordTypes [] types = types"
| "recordTypes (n # ns) types = recordTypes ns (recordType n types)"

text \<open>
  The body of the \<open>try\<close> block, run on the variable \<open>types\<close>: the exception it raised,
  if any, and the value of \<open>types\<close> at that point. Only the parser can raise.
\<close>

definition parseObjectTypes_try ::
  "env \<Rightarrow> string \<Rightarrow> (string \<rightharpoonup> string) \<Rightarrow> exn option \<times> (string \<rightharpoonup> string)" where
  "parseObjectTypes_try e xmlString types =
     (case parseFromString e xmlString of
        Inl err \<Rightarrow> (Some err, types)
      | Inr xmlDoc \<Rightarrow> (None, recordTypes (allElements xmlDoc) types))"

text \<open>The \<open>catch\<close> block logs a warning and execution continues at \<open>return types\<close>. The
  result is the map and the warnings written to the console.\<close>

definition parseObjectTypes :: "env \<Rightarrow> string \<Rightarrow> (string \<rightharpoonup> string) \<times> string list" where
  "parseObjectTypes e xmlString =
     (case parseObjectTypes_try e xmlString Map.empty of
        (Some err, types) \<Rightarrow> (types, [''Failed to parse label XML types''])
      | (None, types) \<Rightarrow> (types, []))"

text \<open>
  The extractor as the specification words it: every element whose tag name ends with
  \<open>Object\<close> and that has a descendant element \<open>Name\<close> declares the pair of that name's
  text and its own tag name; of the declarations of one name, the last in document order
  gives the kind.
\<close>

definition fieldDefinition :: "node \<Rightarrow> (string \<times> string) list" where
  "fieldDefinition n =
     (if endsWith (tagName n) ''Object'' then
        (case getElementsByTagName n ''Name'' of
           [] \<Rightarrow> []
         | nameNode # rest \<Rightarrow> [(textContent nameNode, tagName n)])
      else [])"

definition fieldDefinitions :: "document \<Rightarrow> (string \<times> string) list" where
  "fieldDefinitions doc = concat (map fieldDefinition (allElements doc))"

definition lastDeclared :: "(string \<times> string) list \<Rightarrow> string \<Rightarrow> string option" where
  "lastDeclared ds k =
     (if filter (\<lambda>d. fst d = k) ds = [] then None
      else Some (snd (last (filter (\<lambda>d. fst d = k) ds))))"

section \<open>Application state and the form\<close>

datatype status_type = Checking | Connected | Disconnected

datatype status_message =
    Message string
  | SentPrintJob int string

datatype call =
    Render label
  | Print label string print_params string

text \<open>
  The \<open>state\<close> object, the parts of the page that the functions read and write, and what
  leaves the program: alerts, console output and the calls made to the collaborator.
\<close>

record app =
  label :: "label option"
  labelXml :: "string option"
  objectNames :: "string list"
  objectTypes :: "string \<rightharpoonup> string"
  initialValues :: "string \<rightharpoonup> string"
  labelForm :: "control list"
  labelFile_value :: string
  fileError_text :: string
  fileError_shown :: bool
  formCard_shown :: bool
  noFieldsMessage_text :: string
  noFieldsMessage_shown :: bool
  previewCard_shown :: bool
  printCard_shown :: bool
  previewImage_src :: string
  previewImage_alt :: string
  printerSelect_value :: string
  printQuantity_value :: string
  status :: "status_type \<times> status_message"
  alerts :: "string list"
  console :: "string list"
  calls :: "call list"

section \<open>Form Synchronizer: generateForm\<close>

text \<open>
  \<open>Array.prototype.sort\<close> is stable; with a comparison function that orders the elements
  consistently its result is the stable sorted arrangement, which insertion from the right
  computes.
\<close>

fun insertBy :: "('a \<Rightarrow> 'a \<Rightarrow> int) \<Rightarrow> 'a \<Rightarrow> 'a list \<Rightarrow> 'a list" where
  "insertBy cmp x [] = [x]"
| "insertBy cmp x (y # ys) = (if cmp x y \<le> 0 then x # y # ys else y # insertBy cmp x ys)"

fun sortBy :: "('a \<Rightarrow> 'a \<Rightarrow> int) \<Rightarrow> 'a list \<Rightarrow> 'a list" where
  "sortBy cmp [] = []"
| "sortBy cmp (x # xs) = insertBy cmp x (sortBy cmp xs)"

definition ignored :: "string \<Rightarrow> bool" where
  "ignored name = startsWith (toUpperCase name) ''IGNORE''"

definition editableNames :: "env \<Rightarrow> string list \<Rightarrow> string list" where
  "editableNames e names = sortBy (localeCompare e) (filter (\<lambda>name. \<not> ignored name) names)"

text \<open>
  \<open>state.objectTypes[name] || 'Unknown'\<close>. For a name without an entry that the object
  inherits from its prototype the code reads a value that is no string; it is no image
  kind either, as \<open>Unknown\<close> is none.
\<close>

definition typeOf :: "app \<Rightarrow> string \<Rightarrow> string" where
  "typeOf s name =
     (case objectTypes s name of
        None \<Rightarrow> ''Unknown''
      | Some t \<Rightarrow> (if t = [] then ''Unknown'' else t))"

definition isImage :: "app \<Rightarrow> string \<Rightarrow> bool" where
  "isImage s name = (typeOf s name = ''ImageObject'' \<or> typeOf s name = ''GraphicObject'')"

text \<open>The read of the current value, inside its \<open>try\<close>: empty when the accessor raises.\<close>

definition currentValue :: "app \<Rightarrow> string \<Rightarrow> string" where
  "currentValue s name =
     (case label s of
        None \<Rightarrow> []
      | Some l \<Rightarrow> (case getObjectText l name of Inl err \<Rightarrow> [] | Inr t \<Rightarrow> t))"

text \<open>\<open>formatFieldName\<close>: a space before every capital letter, the first character in
  upper case (a line break is left alone), white space trimmed at both ends.\<close>

definition isCapital :: "char \<Rightarrow> bool" where
  "isCapital c = (c \<in> set ''ABCDEFGHIJKLMNOPQRSTUVWXYZ'')"

definition formatFieldName :: "string \<Rightarrow> string" where
  "formatFieldName name =
     trim
       (case concat (map (\<lambda>c. if isCapital c then [CHR '' '', c] else [c]) name) of
          [] \<Rightarrow> []
        | c # cs \<Rightarrow>
            (if c = CHR 0x0A \<or> c = CHR 0x0D then c # cs else toUpperCase_char c # cs))"

text \<open>\<open>escapeHtml\<close>: the text as the serialization of a text node writes it.\<close>

definition escapeHtml :: "string \<Rightarrow> string" where
  "escapeHtml t =
     concat (map (\<lambda>c. if c = CHR ''&'' then ''&amp;''
                       else if c = CHR ''<'' then ''&lt;''
                       else if c = CHR ''>'' then ''&gt;''
                       else [c]) t)"

text \<open>
  The two template literals that \<open>generateForm\<close> assigns to \<open>div.innerHTML\<close>. The name goes
  into the markup as it is; only the current value passes through \<open>escapeHtml\<close>.
\<close>

definition checkboxMarkup :: "string \<Rightarrow> bool \<Rightarrow> string" where
  \<open>checkboxMarkup name isChecked =
     ''\<newline>                <input class="form-check-input" type="checkbox" id="field-''
     @ name @ ''" \<newline>                       data-field-name="''
     @ name @ ''" data-is-image="true"\<newline>                       ''
     @ (if isChecked then ''checked'' else []) @ ''>\<newline>                <label class="form-check-label" for="field-''
     @ name @ ''">\<newline>                    Include ''
     @ formatFieldName name @ ''\<newline>                </label>\<newline>            ''\<close>

definition textareaMarkup :: "string \<Rightarrow> string \<Rightarrow> string" where
  \<open>textareaMarkup name v =
     ''\<newline>                <label for="field-''
     @ name @ ''" class="form-label">''
     @ formatFieldName name @ ''</label>\<newline>                <textarea class="form-control" id="field-''
     @ name @ ''" rows="3"\<newline>                       data-field-name="''
     @ name @ ''" \<newline>                       placeholder="Enter ''
     @ toLowerCase (formatFieldName name) @ ''">''
     @ escapeHtml v @ ''</textarea>\<newline>            ''\<close>

definition fieldMarkup :: "app \<Rightarrow> string \<Rightarrow> string" where
  "fieldMarkup s name =
     (if isImage s name then checkboxMarkup name (0 < length (currentValue s name))
      else textareaMarkup name (currentValue s name))"

text \<open>
  \<open>generateForm\<close> empties the form and appends one \<open>div\<close> per editable name; the controls
  of the form are the elements with \<open>data-field-name\<close> that the browser builds from the
  markup of each \<open>div\<close>, in the order of the names.
\<close>

definition generateForm :: "env \<Rightarrow> string list \<Rightarrow> app \<Rightarrow> app" where
  "generateForm e names s =
     s\<lparr>labelForm := concat (map (\<lambda>name. parseControls e (fieldMarkup s name))
                                (editableNames e names))\<rparr>"

text \<open>
  The browser carries a name unchanged when the markup of that name gives exactly one
  control, bound to the name itself and of the type the template writes.
\<close>

definition carriedUnchanged :: "env \<Rightarrow> app \<Rightarrow> string \<Rightarrow> bool" where
  "carriedUnchanged e s name =
     (map (\<lambda>c. (fieldName c, inputType c)) (parseControls e (fieldMarkup s name)) =
        [(name, if isImage s name then Checkbox else Textarea)])"

section \<open>Synchronization pass\<close>

text \<open>The body of the inner \<open>try\<close>, the same in \<open>updatePreview\<close> and \<open>printLabels\<close>.\<close>

definition syncInput :: "(string \<rightharpoonup> string) \<Rightarrow> control \<Rightarrow> label \<Rightarrow> exn + label" where
  "syncInput initial input l =
     (if inputType input = Checkbox then
        (if checked input then
           (case initial (fieldName input) of
              None \<Rightarrow> Inr l
            | Some val \<Rightarrow> (if val \<noteq> [] then setObjectText l (fieldName input) val else Inr l))
         else setObjectText l (fieldName input) [])
      else setObjectText l (fieldName input) (inputValue input))"

text \<open>The loop of \<open>updatePreview\<close>: a failed write is logged and the loop goes on.\<close>

fun syncPreview ::
  "(string \<rightharpoonup> string) \<Rightarrow> control list \<Rightarrow> label \<times> string list \<Rightarrow> label \<times> string list" where
  "syncPreview initial [] (l, out) = (l, out)"
| "syncPreview initial (input # inputs) (l, out) =
     (case syncInput initial input l of
        Inl err \<Rightarrow> syncPreview initial inputs (l, out @ [''Could not set text for: '' @ fieldName input])
      | Inr l' \<Rightarrow> syncPreview initial inputs (l', out))"

text \<open>The loop of \<open>printLabels\<close>: a failed write is ignored.\<close>

fun syncPrint :: "(string \<rightharpoonup> string) \<Rightarrow> control list \<Rightarrow> label \<Rightarrow> label" where
  "syncPrint initial [] l = l"
| "syncPrint initial (input # inputs) l =
     (case syncInput initial input l of
        Inl err \<Rightarrow> syncPrint initial inputs l
      | Inr l' \<Rightarrow> syncPrint initial inputs l')"

section \<open>Preview/Print Orchestrator\<close>

text \<open>
  \<open>updatePreview\<close>: nothing without a label; otherwise the pass over the controls, then
  the rendering of the label as the pass left it. The \<open>await\<close> is taken to complete at once.
\<close>

definition updatePreview :: "env \<Rightarrow> app \<Rightarrow> app" where
  "updatePreview e s =
     (case label s of
        None \<Rightarrow> s
      | Some l \<Rightarrow>
          (case syncPreview (initialValues s) (labelForm s) (l, console s) of
             (l', out) \<Rightarrow>
               (case renderAsync e l' of
                  Inr pngBase64 \<Rightarrow>
                    s\<lparr>label := Some l', console := out, calls := calls s @ [Render l'],
                      previewImage_src := ''data:image/png;base64,'' @ pngBase64,
                      previewCard_shown := True\<rparr>
                | Inl (Error msg) \<Rightarrow>
                    s\<lparr>label := Some l', console := out @ [''Preview error: '' @ msg],
                      calls := calls s @ [Render l'],
                      previewImage_src := [],
                      previewImage_alt := ''Preview unavailable: '' @ msg,
                      previewCard_shown := True\<rparr>)))"

text \<open>
  \<open>parseInt(string, 10)\<close>: leading white space is skipped, a sign is read, and the longest
  run of decimal digits that follows is the value; \<open>None\<close> is \<open>NaN\<close>, the result when no
  digit follows. Numbers are unbounded integers here (the doubles of JavaScript are exact
  up to \<open>2 ^ 53\<close>).
\<close>

definition digitValue :: "char \<Rightarrow> int option" where
  "digitValue c = map_of (zip ''0123456789'' [0, 1, 2, 3, 4, 5, 6, 7, 8, 9]) c"

definition isDigit :: "char \<Rightarrow> bool" where
  "isDigit c = (digitValue c \<noteq> None)"

definition digitsValue :: "string \<Rightarrow> int" where
  "digitsValue ds = foldl (\<lambda>acc d. 10 * acc + (case digitValue d of None \<Rightarrow> 0 | Some v \<Rightarrow> v)) 0 ds"

definition parseInt :: "string \<Rightarrow> int option" where
  "parseInt str =
     (let trimmed = dropWhile isWhiteSpace str;
          negative = startsWith trimmed ''-'';
          unsigned = (if startsWith trimmed ''-'' \<or> startsWith trimmed ''+'' then tl trimmed
                      else trimmed);
          digits = takeWhile isDigit unsigned
      in if digits = [] then None
         else Some (if negative then - digitsValue digits else digitsValue digits))"

definition alert :: "string \<Rightarrow> app \<Rightarrow> app" where
  "alert msg s = s\<lparr>alerts := alerts s @ [msg]\<rparr>"

text \<open>
  \<open>printLabels\<close>: the three checks, each ending the function with an alert; then the status,
  the pass over the controls, the print parameters and the call of the collaborator's
  \<open>print\<close>. The reset of the status three seconds after a successful print is a timer and is
  not part of the model.
\<close>

definition printLabels :: "env \<Rightarrow> app \<Rightarrow> app" where
  "printLabels e s =
     (case label s of
        None \<Rightarrow> alert ''No label loaded'' s
      | Some l \<Rightarrow>
          (if printerSelect_value s = [] then alert ''Please select a printer'' s
           else
             (case parseInt (printQuantity_value s) of
                None \<Rightarrow> alert ''Please enter a valid quantity'' s
              | Some quantity \<Rightarrow>
                  (if quantity < 1 then alert ''Please enter a valid quantity'' s
                   else
                     (let l' = syncPrint (initialValues s) (labelForm s) l;
                          printParamsXml =
                            (if hasPrintParamsXml e then LabelWriterPrintParams quantity
                             else NoParams);
                          s' = s\<lparr>status := (Checking, Message ''Printing...''),
                                 label := Some l',
                                 calls := calls s @
                                   [Print l' (printerSelect_value s) printParamsXml []]\<rparr>
                      in (case printResult e l' (printerSelect_value s) printParamsXml of
                            None \<Rightarrow>
                              s'\<lparr>status :=
                                   (Connected, SentPrintJob quantity (printerSelect_value s))\<rparr>
                          | Some (Error msg) \<Rightarrow>
                              s'\<lparr>alerts := alerts s @ [''Print error: '' @ msg],
                                 console := console s @ [''Print error: '' @ msg],
                                 status :=
                                   (Connected, Message ''DYMO Web Service connected'')\<rparr>))))))"

definition clearForm :: "app \<Rightarrow> app" where
  "clearForm s =
     s\<lparr>labelFile_value := [], label := None, labelXml := None, objectNames := [],
       formCard_shown := False, noFieldsMessage_shown := False,
       previewCard_shown := False, printCard_shown := False,
       fileError_shown := False, previewImage_src := []\<rparr>"

section \<open>Loading a template\<close>

text \<open>The snapshot of one field, inside its \<open>try\<close>: no assignment when the accessor
  raises.\<close>

definition storeInitialValue :: "label \<Rightarrow> string \<Rightarrow> (string \<rightharpoonup> string) \<Rightarrow> (string \<rightharpoonup> string)" where
  "storeInitialValue l name initial =
     (case getObjectText l name of
        Inl err \<Rightarrow> initial
      | Inr t \<Rightarrow> assign name t initial)"

definition loadLabel :: "env \<Rightarrow> string \<Rightarrow> app \<Rightarrow> app" where
  "loadLabel e xml s =
     (case openLabelXml e xml of
        Inl (Error msg) \<Rightarrow>
          s\<lparr>fileError_text := ''Error parsing label file: '' @ msg, fileError_shown := True,
            console := console s @ [''Label parsing error: '' @ msg]\<rparr>
      | Inr l \<Rightarrow>
          (let s' = s\<lparr>label := Some l, labelXml := Some xml,
                      objectNames := getObjectNames l,
                      objectTypes := fst (parseObjectTypes e xml),
                      console := console s @ snd (parseObjectTypes e xml),
                      initialValues := fold (storeInitialValue l) (getObjectNames l) Map.empty\<rparr>
           in if objectNames s' = [] then
                updatePreview e
                  (s'\<lparr>noFieldsMessage_text :=
                        ''No editable fields found, or this file type structure allows no variable editing.'',
                      noFieldsMessage_shown := True, formCard_shown := False,
                      previewCard_shown := True, printCard_shown := True\<rparr>)
              else
                updatePreview e
                  ((generateForm e (objectNames s') s')
                     \<lparr>formCard_shown := True, noFieldsMessage_shown := False,
                      printCard_shown := True\<rparr>)))"

section \<open>Auxiliary definitions and examples\<close>

text \<open>One turn of either loop: the label after the \<open>try\<close> around the write.\<close>

definition syncStep :: "(string \<rightharpoonup> string) \<Rightarrow> control \<Rightarrow> label \<Rightarrow> label" where
  "syncStep initial input l = (case syncInput initial input l of Inl err \<Rightarrow> l | Inr l' \<Rightarrow> l')"

text \<open>A comparison of strings by character codes, standing for a locale in the examples.\<close>

fun compareStrings :: "string \<Rightarrow> string \<Rightarrow> int" where
  "compareStrings [] [] = 0"
| "compareStrings [] (b # bs) = - 1"
| "compareStrings (a # as) [] = 1"
| "compareStrings (a # as) (b # bs) =
     (if a = b then compareStrings as bs
      else if (of_char a :: nat) < of_char b then - 1 else 1)"

text \<open>A template with a text field and an image field, and a template without fields.\<close>

definition firstXml :: string where
  "firstXml = ''<DieCutLabel><ObjectInfo><TextObject><Name>Name</Name></TextObject></ObjectInfo><ObjectInfo><ImageObject><Name>Logo</Name></ImageObject></ObjectInfo></DieCutLabel>''"

definition firstDoc :: document where
  "firstDoc =
     [Element ''DieCutLabel''
        [Element ''ObjectInfo'' [Element ''TextObject'' [Element ''Name'' [Text ''Name'']]],
         Element ''ObjectInfo'' [Element ''ImageObject'' [Element ''Name'' [Text ''Logo'']]]]]"

definition firstLabel :: label where
  "firstLabel = [(''Name'', Some ''Ann''), (''Logo'', Some ''ABC123'')]"

definition secondXml :: string where
  "secondXml = ''<DieCutLabel></DieCutLabel>''"

definition secondDoc :: document where
  "secondDoc = [Element ''DieCutLabel'' []]"

definition secondLabel :: label where
  "secondLabel = []"

text \<open>A document in which two objects declare the name \<open>Title\<close>.\<close>

definition repeatedDoc :: document where
  "repeatedDoc =
     [Element ''DieCutLabel''
        [Element ''ObjectInfo''
           [Element ''TextObject'' [Element ''Name'' [Text ''Title''], Element ''Text'' [Text ''hi'']]],
         Comment ''logo'',
         Element ''ObjectInfo'' [Element ''ImageObject'' [Element ''Name'' [Text ''Title'']]],
         Element ''ObjectInfo'' [Element ''ShapeObject'' []]]]"

text \<open>
  A template whose text field carries a character reference in its name, beside a field
  that the form ignores.
\<close>

definition entityXml :: string where
  "entityXml = ''<DieCutLabel><ObjectInfo><TextObject><Name>&amp;#73;GNORE_X</Name></TextObject></ObjectInfo><ObjectInfo><TextObject><Name>IGNORE_X</Name></TextObject></ObjectInfo></DieCutLabel>''"

definition entityDoc :: document where
  "entityDoc =
     [Element ''DieCutLabel''
        [Element ''ObjectInfo'' [Element ''TextObject'' [Element ''Name'' [Text ''&#73;GNORE_X'']]],
         Element ''ObjectInfo'' [Element ''TextObject'' [Element ''Name'' [Text ''IGNORE_X'']]]]]"

definition entityLabel :: label where
  "entityLabel = [(''&#73;GNORE_X'', Some ''a''), (''IGNORE_X'', Some ''secret'')]"

text \<open>A template with an image named \<open>A&amp;B\<close> and a text named \<open>A&B\<close>.\<close>

definition ampersandXml :: string where
  "ampersandXml = ''<DieCutLabel><ObjectInfo><ImageObject><Name>A&amp;amp;B</Name></ImageObject></ObjectInfo><ObjectInfo><TextObject><Name>A&amp;B</Name></TextObject></ObjectInfo></DieCutLabel>''"

definition ampersandDoc :: document where
  "ampersandDoc =
     [Element ''DieCutLabel''
        [Element ''ObjectInfo'' [Element ''ImageObject'' [Element ''Name'' [Text ''A&amp;B'']]],
         Element ''ObjectInfo'' [Element ''TextObject'' [Element ''Name'' [Text ''A&B'']]]]]"

definition ampersandLabel :: label where
  "ampersandLabel = [(''A&amp;B'', Some ''iVBORw0KGgo=''), (''A&B'', Some ''text'')]"

text \<open>A template whose image is named \<open>__proto__\<close>.\<close>

definition protoXml :: string where
  "protoXml = ''<DieCutLabel><ObjectInfo><ImageObject><Name>__proto__</Name></ImageObject></ObjectInfo></DieCutLabel>''"

definition protoDoc :: document where
  "protoDoc =
     [Element ''DieCutLabel''
        [Element ''ObjectInfo'' [Element ''ImageObject'' [Element ''Name'' [Text ''__proto__'']]]]]"

text \<open>
  The first template with its last closing tag missing, and the document of a parser that
  keeps what it has read and adds the \<open>parsererror\<close> element to the root.
\<close>

definition truncatedXml :: string where
  "truncatedXml = ''<DieCutLabel><ObjectInfo><TextObject><Name>Name</Name></TextObject></ObjectInfo><ObjectInfo><ImageObject><Name>Logo</Name></ImageObject></ObjectInfo>''"

definition truncatedDoc :: document where
  "truncatedDoc =
     [Element ''DieCutLabel''
        [Element ''parsererror''
           [Element ''h3'' [Text ''This page contains the following errors:''],
            Element ''div'' [Text ''error on line 1 at column 148: Premature end of data'']],
         Element ''ObjectInfo'' [Element ''TextObject'' [Element ''Name'' [Text ''Name'']]],
         Element ''ObjectInfo'' [Element ''ImageObject'' [Element ''Name'' [Text ''Logo'']]]]]"

text \<open>The controls of the examples.\<close>

definition logoToggle :: "bool \<Rightarrow> control" where
  "logoToggle on = \<lparr>fieldName = ''Logo'', inputType = Checkbox, checked = on, inputValue = ''on''\<rparr>"

definition nameInput :: "string \<Rightarrow> control" where
  "nameInput v = \<lparr>fieldName = ''Name'', inputType = Textarea, checked = False, inputValue = v\<rparr>"

text \<open>
  An environment for the examples. Its XML parser knows the templates above and answers
  every other markup with a document that holds the \<open>parsererror\<close> element alone. Its HTML
  parser knows the markup of the fields of the templates: a character reference in an
  attribute value is decoded, so the control written for \<open>&#73;GNORE_X\<close> is bound to
  \<open>IGNORE_X\<close> and the one written for \<open>A&amp;B\<close> to \<open>A&B\<close>.
\<close>

definition exampleEnv :: env where
  "exampleEnv =
     \<lparr>parseFromString = (\<lambda>xml. if xml = firstXml then Inr firstDoc
                               else if xml = secondXml then Inr secondDoc
                               else if xml = entityXml then Inr entityDoc
                               else if xml = ampersandXml then Inr ampersandDoc
                               else if xml = protoXml then Inr protoDoc
                               else if xml = truncatedXml then Inr truncatedDoc
                               else Inr [Element ''parsererror'' [Text ''not well-formed'']]),
      parseControls = (\<lambda>markup.
         if markup = checkboxMarkup ''Logo'' True then [logoToggle True]
         else if markup = textareaMarkup ''Name'' ''Ann'' then [nameInput ''Ann'']
         else if markup = textareaMarkup ''&#73;GNORE_X'' ''a'' then
           [\<lparr>fieldName = ''IGNORE_X'', inputType = Textarea, checked = False, inputValue = ''a''\<rparr>]
         else if markup = textareaMarkup ''A&B'' ''text'' then
           [\<lparr>fieldName = ''A&B'', inputType = Textarea, checked = False, inputValue = ''text''\<rparr>]
         else if markup = checkboxMarkup ''A&amp;B'' True then
           [\<lparr>fieldName = ''A&B'', inputType = Checkbox, checked = True, inputValue = ''on''\<rparr>]
         else []),
      openLabelXml = (\<lambda>xml. if xml = firstXml then Inr firstLabel
                            else if xml = secondXml then Inr secondLabel
                            else if xml = entityXml then Inr entityLabel
                            else if xml = ampersandXml then Inr ampersandLabel
                            else Inl (Error ''not a label'')),
      localeCompare = compareStrings,
      hasPrintParamsXml = True,
      renderAsync = (\<lambda>l. Inr ''iVBORw0KGgo=''),
      printResult = (\<lambda>l printer params. None)\<rparr>"

text \<open>The page before any template is loaded.\<close>

definition initialApp :: app where
  "initialApp =
     \<lparr>label = None, labelXml = None, objectNames = [], objectTypes = Map.empty,
      initialValues = Map.empty, labelForm = [], labelFile_value = [],
      fileError_text = [], fileError_shown = False, formCard_shown = False,
      noFieldsMessage_text = [], noFieldsMessage_shown = False,
      previewCard_shown = False, printCard_shown = False,
      previewImage_src = [], previewImage_alt = [],
      printerSelect_value = ''DYMO LabelWriter 450'', printQuantity_value = ''1'',
      status = (Connected, Message ''DYMO Web Service connected''),
      alerts = [], console = [], calls = []\<rparr>"

text \<open>The page after the first template was loaded, and after the user then typed a new
  name and unticked the image.\<close>

definition loadedApp :: app where
  "loadedApp = loadLabel exampleEnv firstXml initialApp"

definition editedApp :: app where
  "editedApp = loadedApp\<lparr>labelForm := [logoToggle False, nameInput ''Bob'']\<rparr>"

section \<open>The Field Extractor\<close>

lemma lastDeclared_Nil: "lastDeclared [] k = None"
  by (simp add: lastDeclared_def)

lemma lastDeclared_append:
  "lastDeclared (xs @ ys) k =
     (case lastDeclared ys k of None \<Rightarrow> lastDeclared xs k | Some t \<Rightarrow> Some t)"
  by (auto simp: lastDeclared_def)

lemma recordType_lastDeclared:
  "recordType n m k =
     (if k = ''__proto__'' then m k
      else (case lastDeclared (fieldDefinition n) k of None \<Rightarrow> m k | Some t \<Rightarrow> Some t))"
  apply (cases "endsWith (tagName n) ''Object''")
   apply (cases "getElementsByTagName n ''Name''")
    apply (simp_all add: recordType_def fieldDefinition_def lastDeclared_def assign_def)
  done

lemma recordTypes_lastDeclared:
  "recordTypes ns m k =
     (if k = ''__proto__'' then m k
      else (case lastDeclared (concat (map fieldDefinition ns)) k of
              None \<Rightarrow> m k
            | Some t \<Rightarrow> Some t))"
proof (induction ns arbitrary: m)
  case Nil
  show ?case by (simp add: lastDeclared_Nil)
next
  case (Cons n ns)
  show ?case
    by (simp add: Cons.IH recordType_lastDeclared lastDeclared_append split: option.splits)
qed

text \<open>
  On a document of the parser the map is the one the specification describes (elements in
  document order, a tag name that ends with \<open>Object\<close>, a descendant \<open>Name\<close>, the last
  declaration of a name wins) at every key but \<open>__proto__\<close>, which never gets an entry;
  nothing is logged. When the parser throws, the map is empty and one warning is logged.
\<close>

lemma parseObjectTypes_on_document:
  assumes "parseFromString e xmlString = Inr xmlDoc"
  shows "parseObjectTypes e xmlString =
           (\<lambda>k. if k = ''__proto__'' then None else lastDeclared (fieldDefinitions xmlDoc) k, [])"
proof -
  have "recordTypes (allElements xmlDoc) Map.empty =
      (\<lambda>k. if k = ''__proto__'' then None else lastDeclared (fieldDefinitions xmlDoc) k)"
  proof
    fix k
    show "recordTypes (allElements xmlDoc) Map.empty k =
        (if k = ''__proto__'' then None else lastDeclared (fieldDefinitions xmlDoc) k)"
      by (simp add: fieldDefinitions_def recordTypes_lastDeclared split: option.splits)
  qed
  with assms show ?thesis
    by (simp add: parseObjectTypes_def parseObjectTypes_try_def)
qed

lemma parseObjectTypes_caught:
  assumes "parseFromString e xmlString = Inl err"
  shows "parseObjectTypes e xmlString = (Map.empty, [''Failed to parse label XML types''])"
  using assms by (simp add: parseObjectTypes_def parseObjectTypes_try_def)

text \<open>
  C3. The template below is well-formed and its image object declares the name
  \<open>__proto__\<close>. As the specification words it, the name has the kind \<open>ImageObject\<close>; the
  map that \<open>parseObjectTypes\<close> returns has no entry for it, because the assignment to an
  object literal does not store that key.
\<close>

theorem parseObjectTypes_loses_proto:
  "parseFromString exampleEnv protoXml = Inr protoDoc
   \<and> lastDeclared (fieldDefinitions protoDoc) ''__proto__'' = Some ''ImageObject''
   \<and> fst (parseObjectTypes exampleEnv protoXml) ''__proto__'' = None
   \<and> snd (parseObjectTypes exampleEnv protoXml) = []"
  by (intro conjI; code_simp)

text \<open>
  C4. The first markup below lacks its last closing tag. The parser does not throw: it
  returns a document with a \<open>parsererror\<close> element, here one that keeps the elements read
  so far. \<open>parseObjectTypes\<close> never reaches its \<open>catch\<close>: no warning is logged and the map
  holds the two fields of that document. For the second markup the document holds the
  \<open>parsererror\<close> element alone: the map is empty, and again no warning is logged.
\<close>

theorem parseObjectTypes_silent_on_error_document:
  "parseFromString exampleEnv truncatedXml = Inr truncatedDoc
   \<and> fst (parseObjectTypes exampleEnv truncatedXml) ''Name'' = Some ''TextObject''
   \<and> fst (parseObjectTypes exampleEnv truncatedXml) ''Logo'' = Some ''ImageObject''
   \<and> snd (parseObjectTypes exampleEnv truncatedXml) = []
   \<and> parseFromString exampleEnv ''<DieCutLabel>'' =
       Inr [Element ''parsererror'' [Text ''not well-formed'']]
   \<and> fst (parseObjectTypes exampleEnv ''<DieCutLabel>'') ''Name'' = None
   \<and> snd (parseObjectTypes exampleEnv ''<DieCutLabel>'') = []"
  by (intro conjI; code_simp)

section \<open>The synchronization pass\<close>

lemma map_of_setObjectText:
  "setObjectText l name v = Inr l' \<Longrightarrow> map_of l' = (map_of l)(name \<mapsto> Some v)"
  by (auto simp: setObjectText_def update_conv' split: option.splits)

lemma getObjectText_setObjectText:
  "setObjectText l name v = Inr l' \<Longrightarrow>
   getObjectText l' n = (if n = name then Inr v else getObjectText l n)"
  by (simp add: getObjectText_def map_of_setObjectText)

lemma setObjectText_accepted:
  "getObjectText l name = Inr t \<Longrightarrow> \<exists>l'. setObjectText l name v = Inr l'"
  by (auto simp: getObjectText_def setObjectText_def split: option.splits)

lemma setObjectText_names:
  "setObjectText l name v = Inr l' \<Longrightarrow> getObjectNames l' = getObjectNames l"
  apply (auto simp: setObjectText_def getObjectNames_def split: option.splits)
  by (metis update_keys map_of_eq_None_iff option.distinct(1) image_set)

lemma syncPrint_Cons: "syncPrint initial (c # cs) l = syncPrint initial cs (syncStep initial c l)"
  by (simp add: syncStep_def split: sum.splits)

lemma syncPrint_append:
  "syncPrint initial (cs @ ds) l = syncPrint initial ds (syncPrint initial cs l)"
  by (induction cs arbitrary: l) (simp_all split: sum.splits)

lemma syncPreview_label:
  "fst (syncPreview initial cs (l, out)) = syncPrint initial cs l"
  by (induction cs arbitrary: l out) (simp_all split: sum.splits)

lemma syncStep_other:
  "n \<noteq> fieldName c \<Longrightarrow> getObjectText (syncStep initial c l) n = getObjectText l n"
  by (auto simp: syncStep_def syncInput_def getObjectText_setObjectText split: sum.splits option.splits)

lemma syncPrint_other:
  "n \<notin> fieldName ` set cs \<Longrightarrow> getObjectText (syncPrint initial cs l) n = getObjectText l n"
  by (induction cs arbitrary: l) (simp_all add: syncPrint_Cons syncStep_other del: syncPrint.simps(2))


lemma syncStep_accepted:
  "getObjectText l n = Inr t \<Longrightarrow> \<exists>t'. getObjectText (syncStep initial c l) n = Inr t'"
  by (auto simp: syncStep_def syncInput_def getObjectText_setObjectText split: sum.splits option.splits)

lemma syncPrint_accepted:
  "getObjectText l n = Inr t \<Longrightarrow> \<exists>t'. getObjectText (syncPrint initial cs l) n = Inr t'"
proof (induction cs arbitrary: l t)
  case Nil
  then show ?case by simp
next
  case (Cons c cs)
  from syncStep_accepted [OF Cons.prems] obtain t' where
    "getObjectText (syncStep initial c l) n = Inr t'" by blast
  from Cons.IH [OF this] show ?case by (simp add: syncPrint_Cons del: syncPrint.simps(2))
qed

lemma syncPrint_last_writer:
  assumes "fieldName c \<notin> fieldName ` set post"
  shows "getObjectText (syncPrint initial (pre @ c # post) l) (fieldName c) =
         getObjectText (syncStep initial c (syncPrint initial pre l)) (fieldName c)"
  using assms by (simp add: syncPrint_append syncPrint_Cons syncPrint_other del: syncPrint.simps(2))

lemma syncStep_text:
  assumes "inputType c = Textarea" and "getObjectText l (fieldName c) = Inr t"
  shows "getObjectText (syncStep initial c l) (fieldName c) = Inr (inputValue c)"
proof -
  from setObjectText_accepted [OF assms(2)] obtain l' where
    "setObjectText l (fieldName c) (inputValue c) = Inr l'" by blast
  then show ?thesis
    using assms(1) by (simp add: syncStep_def syncInput_def getObjectText_setObjectText)
qed

lemma syncStep_unchecked:
  assumes "inputType c = Checkbox" and "\<not> checked c" and "getObjectText l (fieldName c) = Inr t"
  shows "getObjectText (syncStep initial c l) (fieldName c) = Inr []"
proof -
  from setObjectText_accepted [OF assms(3)] obtain l' where
    "setObjectText l (fieldName c) [] = Inr l'" by blast
  then show ?thesis
    using assms(1,2) by (simp add: syncStep_def syncInput_def getObjectText_setObjectText)
qed

lemma syncStep_restore:
  assumes "inputType c = Checkbox" and "checked c" and "initial (fieldName c) = Some v"
    and "v \<noteq> []" and "getObjectText l (fieldName c) = Inr t"
  shows "getObjectText (syncStep initial c l) (fieldName c) = Inr v"
proof -
  from setObjectText_accepted [OF assms(5)] obtain l' where
    "setObjectText l (fieldName c) v = Inr l'" by blast
  then show ?thesis
    using assms(1-4) by (simp add: syncStep_def syncInput_def getObjectText_setObjectText)
qed

lemma syncStep_keep:
  assumes "inputType c = Checkbox" and "checked c"
    and "initial (fieldName c) = None \<or> initial (fieldName c) = Some []"
  shows "syncStep initial c l = l"
  using assms by (auto simp: syncStep_def syncInput_def)

lemma syncPrint_toggle:
  assumes toggle: "inputType c = Checkbox"
    and only: "fieldName c \<notin> fieldName ` set pre" "fieldName c \<notin> fieldName ` set post"
    and field: "getObjectText l (fieldName c) = Inr old"
  shows "getObjectText (syncPrint initial (pre @ c # post) l) (fieldName c) =
         Inr (if checked c then
                (case initial (fieldName c) of
                   None \<Rightarrow> old
                 | Some original \<Rightarrow> if original = [] then old else original)
              else [])"
proof -
  let ?n = "fieldName c"
  let ?before = "syncPrint initial pre l"
  let ?after = "syncPrint initial (pre @ c # post) l"
  have before: "getObjectText ?before ?n = Inr old"
    using only(1) field by (simp add: syncPrint_other)
  have last: "getObjectText ?after ?n = getObjectText (syncStep initial c ?before) ?n"
    by (rule syncPrint_last_writer [OF only(2)])
  show ?thesis
  proof (cases "checked c")
    case False
    with syncStep_unchecked [OF toggle _ before] last show ?thesis by simp
  next
    case True
    show ?thesis
    proof (cases "initial ?n")
      case None
      with True syncStep_keep [OF toggle True, of initial ?before] last before
      show ?thesis by simp
    next
      case (Some original)
      show ?thesis
      proof (cases "original = []")
        case True
        with \<open>checked c\<close> Some syncStep_keep [OF toggle \<open>checked c\<close>, of initial ?before] last before
        show ?thesis by simp
      next
        case False
        have "getObjectText (syncStep initial c ?before) ?n = Inr original"
          using toggle \<open>checked c\<close> Some False before by (rule syncStep_restore)
        with \<open>checked c\<close> Some False last show ?thesis by simp
      qed
    qed
  qed
qed

text \<open>
  C1. Let \<open>c\<close> be a toggle of the form, the only control bound to its field, and let the
  field be one whose text the label \<open>l\<close> accepts, with the value \<open>old\<close>. After the pass of
  \<open>updatePreview\<close> and after the pass of \<open>printLabels\<close> the value of the field is: the
  original snapshot when the toggle is checked and the snapshot is not empty; \<open>old\<close> when
  the toggle is checked and the snapshot is empty or absent; the empty string when the
  toggle is not checked.
\<close>

theorem toggle_synchronization:
  assumes "inputType c = Checkbox"
    and "fieldName c \<notin> fieldName ` set pre" and "fieldName c \<notin> fieldName ` set post"
    and "getObjectText l (fieldName c) = Inr old"
  shows "getObjectText (fst (syncPreview initial (pre @ c # post) (l, out))) (fieldName c) =
           Inr (if checked c then
                  (case initial (fieldName c) of
                     None \<Rightarrow> old
                   | Some original \<Rightarrow> if original = [] then old else original)
                else [])
         \<and> getObjectText (syncPrint initial (pre @ c # post) l) (fieldName c) =
           Inr (if checked c then
                  (case initial (fieldName c) of
                     None \<Rightarrow> old
                   | Some original \<Rightarrow> if original = [] then old else original)
                else [])"
  using syncPrint_toggle [OF assms] by (simp add: syncPreview_label)

theorem toggle_synchronization_witness:
  "getObjectText (syncPrint [''Logo'' \<mapsto> ''ABC123''] [nameInput ''Bob'', logoToggle True]
       [(''Name'', Some ''Ann''), (''Logo'', Some [])]) ''Logo'' = Inr ''ABC123''
   \<and> getObjectText (fst (syncPreview [''Logo'' \<mapsto> ''ABC123''] [nameInput ''Bob'', logoToggle False]
       (firstLabel, []))) ''Logo'' = Inr []
   \<and> getObjectText (syncPrint Map.empty [nameInput ''Bob'', logoToggle True] firstLabel) ''Logo''
       = Inr ''ABC123''"
proof -
  have restored:
    "getObjectText (syncPrint [''Logo'' \<mapsto> ''ABC123''] [nameInput ''Bob'', logoToggle True]
       [(''Name'', Some ''Ann''), (''Logo'', Some [])]) ''Logo'' = Inr ''ABC123''"
    using toggle_synchronization [of "logoToggle True" "[nameInput ''Bob'']" "[]"
        "[(''Name'', Some ''Ann''), (''Logo'', Some [])]" "[]" "[''Logo'' \<mapsto> ''ABC123'']" "[]"]
    by (simp add: logoToggle_def nameInput_def getObjectText_def)
  have cleared:
    "getObjectText (fst (syncPreview [''Logo'' \<mapsto> ''ABC123''] [nameInput ''Bob'', logoToggle False]
       (firstLabel, []))) ''Logo'' = Inr []"
    using toggle_synchronization [of "logoToggle False" "[nameInput ''Bob'']" "[]"
        firstLabel "''ABC123''" "[''Logo'' \<mapsto> ''ABC123'']" "[]"]
    by (simp add: logoToggle_def nameInput_def getObjectText_def firstLabel_def)
  have kept:
    "getObjectText (syncPrint Map.empty [nameInput ''Bob'', logoToggle True] firstLabel) ''Logo''
       = Inr ''ABC123''"
    using toggle_synchronization [of "logoToggle True" "[nameInput ''Bob'']" "[]"
        firstLabel "''ABC123''" Map.empty "[]"]
    by (simp add: logoToggle_def nameInput_def getObjectText_def firstLabel_def)
  from restored cleared kept show ?thesis by simp
qed

section \<open>The generated form\<close>

lemma mset_insertBy: "mset (insertBy cmp x xs) = add_mset x (mset xs)"
  by (induction xs) simp_all

lemma mset_sortBy: "mset (sortBy cmp xs) = mset xs"
  by (induction xs) (simp_all add: mset_insertBy)

lemma set_insertBy: "set (insertBy cmp x xs) = insert x (set xs)"
  by (induction xs) auto

lemma set_sortBy: "set (sortBy cmp xs) = set xs"
  by (induction xs) (simp_all add: set_insertBy)

lemma sorted_insertBy:
  assumes total: "\<forall>a\<in>A. \<forall>b\<in>A. cmp a b \<le> 0 \<or> cmp b a \<le> 0"
    and trans: "\<forall>a\<in>A. \<forall>b\<in>A. \<forall>c\<in>A. cmp a b \<le> 0 \<longrightarrow> cmp b c \<le> 0 \<longrightarrow> cmp a c \<le> 0"
    and "x \<in> A" and "set xs \<subseteq> A"
    and "sorted_wrt (\<lambda>a b. cmp a b \<le> 0) xs"
  shows "sorted_wrt (\<lambda>a b. cmp a b \<le> 0) (insertBy cmp x xs)"
  using assms(3-)
proof (induction xs)
  case Nil
  then show ?case by simp
next
  case (Cons y ys)
  show ?case
  proof (cases "cmp x y \<le> 0")
    case True
    have "cmp x z \<le> 0" if "z \<in> set ys" for z
    proof -
      from that Cons.prems have "cmp y z \<le> 0" "z \<in> A" "y \<in> A" by auto
      with True trans Cons.prems(1) show ?thesis by blast
    qed
    with True Cons.prems show ?thesis by auto
  next
    case False
    with total Cons.prems have yx: "cmp y x \<le> 0" by auto
    from Cons have "sorted_wrt (\<lambda>a b. cmp a b \<le> 0) (insertBy cmp x ys)" by simp
    with False yx Cons.prems show ?thesis by (auto simp: set_insertBy)
  qed
qed

lemma sorted_sortBy:
  assumes total: "\<forall>a\<in>A. \<forall>b\<in>A. cmp a b \<le> 0 \<or> cmp b a \<le> 0"
    and trans: "\<forall>a\<in>A. \<forall>b\<in>A. \<forall>c\<in>A. cmp a b \<le> 0 \<longrightarrow> cmp b c \<le> 0 \<longrightarrow> cmp a c \<le> 0"
    and "set xs \<subseteq> A"
  shows "sorted_wrt (\<lambda>a b. cmp a b \<le> 0) (sortBy cmp xs)"
  using assms(3)
proof (induction xs)
  case Nil
  show ?case by simp
next
  case (Cons x xs)
  then have "sorted_wrt (\<lambda>a b. cmp a b \<le> 0) (sortBy cmp xs)" by simp
  with Cons.prems show ?case
    by (simp add: sorted_insertBy [OF total trans] set_sortBy)
qed

lemma syncPreview_other:
  "n \<notin> fieldName ` set cs \<Longrightarrow>
   getObjectText (fst (syncPreview initial cs (l, out))) n = getObjectText l n"
  by (simp add: syncPreview_label syncPrint_other)

text \<open>
  The names that \<open>generateForm\<close> writes controls for: under a comparison that orders the
  given names consistently they are the given names that do not start with \<open>IGNORE\<close> in any
  casing, each as often as it was given, in ascending order.
\<close>

lemma editableNames_filtered_sorted:
  assumes total: "\<forall>a\<in>set names. \<forall>b\<in>set names. localeCompare e a b \<le> 0 \<or> localeCompare e b a \<le> 0"
    and trans: "\<forall>a\<in>set names. \<forall>b\<in>set names. \<forall>c\<in>set names.
        localeCompare e a b \<le> 0 \<longrightarrow> localeCompare e b c \<le> 0 \<longrightarrow> localeCompare e a c \<le> 0"
  shows "mset (editableNames e names) = mset (filter (\<lambda>name. \<not> ignored name) names)
         \<and> sorted_wrt (\<lambda>a b. localeCompare e a b \<le> 0) (editableNames e names)"
proof -
  have "sorted_wrt (\<lambda>a b. localeCompare e a b \<le> 0) (editableNames e names)"
    unfolding editableNames_def by (rule sorted_sortBy [OF total trans]) auto
  then show ?thesis by (simp add: editableNames_def mset_sortBy)
qed

lemma editableNames_example:
  assumes "0 < localeCompare e ''Name'' ''Address''"
  shows "editableNames e [''Name'', ''ignoreId'', ''Address''] = [''Address'', ''Name'']"
  using assms
  by (simp add: editableNames_def ignored_def toUpperCase_def toUpperCase_char_def)

text \<open>
  Where the browser carries every editable name unchanged, the form has one control for
  each of these names, in their order, bound to the name and of the type of its kind.
\<close>

lemma generateForm_carried_unchanged:
  assumes carried: "\<forall>name\<in>set names. \<not> ignored name \<longrightarrow> carriedUnchanged e s name"
  shows "map (\<lambda>c. (fieldName c, inputType c)) (labelForm (generateForm e names s)) =
         map (\<lambda>name. (name, if isImage s name then Checkbox else Textarea)) (editableNames e names)"
proof -
  have each: "map (\<lambda>c. (fieldName c, inputType c))
        (concat (map (\<lambda>name. parseControls e (fieldMarkup s name)) ns)) =
      map (\<lambda>name. (name, if isImage s name then Checkbox else Textarea)) ns"
    if "\<forall>name\<in>set ns. carriedUnchanged e s name" for ns
    using that by (induction ns) (simp_all add: carriedUnchanged_def)
  have "set (editableNames e names) = set (filter (\<lambda>name. \<not> ignored name) names)"
    by (simp only: editableNames_def set_sortBy)
  with carried have "\<forall>name\<in>set (editableNames e names). carriedUnchanged e s name"
    by auto
  from each [OF this] show ?thesis by (simp add: generateForm_def)
qed

text \<open>
  C2. The template below has the text fields \<open>&#73;GNORE_X\<close> and \<open>IGNORE_X\<close>. The second
  is excluded from the form; the first is not, and its name goes into the markup
  unescaped, where the browser decodes the character reference. After the load the one
  control of the form is bound to \<open>IGNORE_X\<close>, and the pass of \<open>updatePreview\<close> has written
  the text of the other field over the stored value of the excluded field.
\<close>

theorem ignored_field_overwritten:
  "getObjectNames entityLabel = [''&#73;GNORE_X'', ''IGNORE_X'']
   \<and> ignored ''IGNORE_X'' \<and> \<not> ignored ''&#73;GNORE_X''
   \<and> getObjectText entityLabel ''IGNORE_X'' = Inr ''secret''
   \<and> map fieldName (labelForm (loadLabel exampleEnv entityXml initialApp)) = [''IGNORE_X'']
   \<and> label (loadLabel exampleEnv entityXml initialApp) =
       Some [(''&#73;GNORE_X'', Some ''a''), (''IGNORE_X'', Some ''a'')]"
  by (intro conjI; code_simp)


section \<open>Preview and print\<close>

lemma parseInt_examples:
  "parseInt ''2.5'' = Some 2" "parseInt ''3abc'' = Some 3" "parseInt ''0'' = Some 0"
  "parseInt ''abc'' = None" "parseInt ''  -12x'' = Some (- 12)" "parseInt [] = None"
  "parseInt ''+7'' = Some 7" "parseInt ''1e3'' = Some 1"
  by (simp_all add: parseInt_def isWhiteSpace_def isDigit_def digitValue_def digitsValue_def)


lemma updatePreview_loaded:
  assumes "label s = Some l"
  shows "calls (updatePreview e s) = calls s @ [Render (syncPrint (initialValues s) (labelForm s) l)]
         \<and> label (updatePreview e s) = Some (syncPrint (initialValues s) (labelForm s) l)"
proof (cases "syncPreview (initialValues s) (labelForm s) (l, console s)")
  case (Pair l' out)
  then have "l' = syncPrint (initialValues s) (labelForm s) l"
    using syncPreview_label [of "initialValues s" "labelForm s" l "console s"] by simp
  with Pair assms show ?thesis
    by (simp add: updatePreview_def split: sum.splits exn.splits)
qed

lemma printLabels_valid:
  assumes "label s = Some l" and "printerSelect_value s \<noteq> []"
    and "parseInt (printQuantity_value s) = Some q" and "1 \<le> q"
  shows "calls (printLabels e s) =
           calls s @ [Print (syncPrint (initialValues s) (labelForm s) l) (printerSelect_value s)
                        (if hasPrintParamsXml e then LabelWriterPrintParams q else NoParams) []]
         \<and> label (printLabels e s) = Some (syncPrint (initialValues s) (labelForm s) l)"
  using assms by (simp add: printLabels_def Let_def split: option.splits exn.splits)

lemma printLabels_blocked:
  assumes "label s = None \<or> printerSelect_value s = [] \<or> parseInt (printQuantity_value s) = None
           \<or> (\<exists>q. parseInt (printQuantity_value s) = Some q \<and> q < 1)"
  shows "printLabels e s =
           alert (if label s = None then ''No label loaded''
                  else if printerSelect_value s = [] then ''Please select a printer''
                  else ''Please enter a valid quantity'') s"
  using assms by (auto simp: printLabels_def split: option.splits)

lemma syncPrint_textarea:
  assumes area: "inputType c = Textarea"
    and only: "fieldName c \<notin> fieldName ` set post"
    and field: "getObjectText l (fieldName c) = Inr old"
  shows "getObjectText (syncPrint initial (pre @ c # post) l) (fieldName c) = Inr (inputValue c)"
proof -
  from syncPrint_accepted [OF field] obtain t where
    "getObjectText (syncPrint initial pre l) (fieldName c) = Inr t" by blast
  with syncStep_text [OF area this] syncPrint_last_writer [OF only] show ?thesis by simp
qed


lemma syncPrint_control:
  assumes only: "fieldName c \<notin> fieldName ` set pre" "fieldName c \<notin> fieldName ` set post"
    and field: "getObjectText l (fieldName c) = Inr old"
  shows "getObjectText (syncPrint initial (pre @ c # post) l) (fieldName c) =
         Inr (if inputType c = Checkbox then
                (if checked c then
                   (case initial (fieldName c) of
                      None \<Rightarrow> old
                    | Some original \<Rightarrow> if original = [] then old else original)
                 else [])
              else inputValue c)"
proof (cases "inputType c")
  case Checkbox
  with syncPrint_toggle [OF Checkbox only field, of initial] show ?thesis by simp
next
  case Textarea
  with syncPrint_textarea [OF Textarea only(2) field, of initial pre] show ?thesis by simp
qed

text \<open>
  C5. With a label loaded, \<open>updatePreview\<close> hands to the renderer, and \<open>printLabels\<close> (once
  its checks have passed) hands to the printer, the label as the pass over the whole form
  left it: for every control \<open>c\<close> of the form that is the only control of its field, on a
  field whose text the label accepts, the document of the call holds the value that the
  control stands for (the text of a text area; for a toggle the value of C1). Both
  functions run the pass themselves, before the call; no timer takes part.
\<close>

theorem synchronization_before_action:
  assumes loaded: "label s = Some l"
    and form: "labelForm s = pre @ c # post"
    and only: "fieldName c \<notin> fieldName ` set pre" "fieldName c \<notin> fieldName ` set post"
    and field: "getObjectText l (fieldName c) = Inr old"
  shows "(\<exists>l'. calls (updatePreview e s) = calls s @ [Render l']
            \<and> getObjectText l' (fieldName c) =
                Inr (if inputType c = Checkbox then
                       (if checked c then
                          (case initialValues s (fieldName c) of
                             None \<Rightarrow> old
                           | Some original \<Rightarrow> if original = [] then old else original)
                        else [])
                     else inputValue c))
         \<and> (\<forall>quantity. printerSelect_value s \<noteq> [] \<longrightarrow>
               parseInt (printQuantity_value s) = Some quantity \<longrightarrow> 1 \<le> quantity \<longrightarrow>
               (\<exists>l' params. calls (printLabels e s) =
                    calls s @ [Print l' (printerSelect_value s) params []]
                  \<and> getObjectText l' (fieldName c) =
                      Inr (if inputType c = Checkbox then
                             (if checked c then
                                (case initialValues s (fieldName c) of
                                   None \<Rightarrow> old
                                 | Some original \<Rightarrow> if original = [] then old else original)
                              else [])
                           else inputValue c)))"
proof -
  let ?l' = "syncPrint (initialValues s) (labelForm s) l"
  have synced: "getObjectText ?l' (fieldName c) =
      Inr (if inputType c = Checkbox then
             (if checked c then
                (case initialValues s (fieldName c) of
                   None \<Rightarrow> old
                 | Some original \<Rightarrow> if original = [] then old else original)
              else [])
           else inputValue c)"
    unfolding form by (rule syncPrint_control [OF only field])
  have preview: "calls (updatePreview e s) = calls s @ [Render ?l']"
    using updatePreview_loaded [OF loaded] by simp
  have print: "calls (printLabels e s) =
      calls s @ [Print ?l' (printerSelect_value s)
                   (if hasPrintParamsXml e then LabelWriterPrintParams quantity else NoParams) []]"
    if "printerSelect_value s \<noteq> []" "parseInt (printQuantity_value s) = Some quantity" "1 \<le> quantity"
    for quantity
    using printLabels_valid [OF loaded that] by simp
  from synced preview print show ?thesis by blast
qed



theorem synchronization_before_action_witness:
  "label editedApp = Some firstLabel
   \<and> labelForm editedApp = [logoToggle False] @ nameInput ''Bob'' # []
   \<and> getObjectText firstLabel (fieldName (nameInput ''Bob'')) = Inr ''Ann''
   \<and> (\<exists>l'. calls (updatePreview exampleEnv editedApp) = calls editedApp @ [Render l']
          \<and> getObjectText l' ''Name'' = Inr ''Bob'')
   \<and> (\<exists>l' params. calls (printLabels exampleEnv editedApp) =
          calls editedApp @ [Print l' ''DYMO LabelWriter 450'' params []]
          \<and> getObjectText l' ''Name'' = Inr ''Bob'')
   \<and> calls (printLabels exampleEnv editedApp) =
       [Render [(''Name'', Some ''Ann''), (''Logo'', Some ''ABC123'')],
        Print [(''Name'', Some ''Bob''), (''Logo'', Some [])] ''DYMO LabelWriter 450''
          (LabelWriterPrintParams 1) []]"
proof -
  have loaded: "label editedApp = Some firstLabel" by code_simp
  have form: "labelForm editedApp = [logoToggle False] @ nameInput ''Bob'' # []" by code_simp
  have only: "fieldName (nameInput ''Bob'') \<notin> fieldName ` set [logoToggle False]"
    "fieldName (nameInput ''Bob'') \<notin> fieldName ` set []"
    by (simp_all add: nameInput_def logoToggle_def)
  have field: "getObjectText firstLabel (fieldName (nameInput ''Bob'')) = Inr ''Ann''" by code_simp
  have printer: "printerSelect_value editedApp = ''DYMO LabelWriter 450''" by code_simp
  have quantity: "parseInt (printQuantity_value editedApp) = Some 1" by code_simp
  have result: "calls (printLabels exampleEnv editedApp) =
       [Render [(''Name'', Some ''Ann''), (''Logo'', Some ''ABC123'')],
        Print [(''Name'', Some ''Bob''), (''Logo'', Some [])] ''DYMO LabelWriter 450''
          (LabelWriterPrintParams 1) []]" by code_simp
  note inst = synchronization_before_action [OF loaded form only field, of exampleEnv]
  from inst have preview:
    "\<exists>l'. calls (updatePreview exampleEnv editedApp) = calls editedApp @ [Render l']
          \<and> getObjectText l' ''Name'' = Inr ''Bob''"
    by (simp add: nameInput_def)
  from inst printer quantity have print:
    "\<exists>l' params. calls (printLabels exampleEnv editedApp) =
          calls editedApp @ [Print l' ''DYMO LabelWriter 450'' params []]
          \<and> getObjectText l' ''Name'' = Inr ''Bob''"
    by (simp add: nameInput_def)
  from loaded form field preview print result show ?thesis by blast
qed

text \<open>
  C6. When the printer selection is empty, or \<open>parseInt\<close> of the quantity is \<open>NaN\<close> or below
  one, \<open>printLabels\<close> adds one alert and changes nothing else: the calls to the
  collaborator are as before. Conversely, when \<open>printLabels\<close> has called the collaborator,
  a label was loaded, the printer was selected and the quantity parsed to a number of at
  least one, and the one call added is \<open>print\<close> with that printer and, where the framework
  builds print parameters, that number of copies.
\<close>

theorem print_validation:
  "(printerSelect_value s = [] \<or> parseInt (printQuantity_value s) = None
      \<or> (\<exists>quantity. parseInt (printQuantity_value s) = Some quantity \<and> quantity < 1) \<longrightarrow>
      (\<exists>msg. msg \<in> set [''No label loaded'', ''Please select a printer'',
                          ''Please enter a valid quantity'']
         \<and> printLabels e s = s\<lparr>alerts := alerts s @ [msg]\<rparr>)
      \<and> calls (printLabels e s) = calls s)
   \<and> (calls (printLabels e s) \<noteq> calls s \<longrightarrow> hasPrintParamsXml e \<longrightarrow>
      (\<exists>l quantity. label s = Some l \<and> printerSelect_value s \<noteq> []
         \<and> parseInt (printQuantity_value s) = Some quantity \<and> 1 \<le> quantity
         \<and> calls (printLabels e s) =
             calls s @ [Print (syncPrint (initialValues s) (labelForm s) l)
                          (printerSelect_value s) (LabelWriterPrintParams quantity) []]))"
proof -
  have blocked: "(\<exists>msg. msg \<in> set [''No label loaded'', ''Please select a printer'',
                          ''Please enter a valid quantity'']
         \<and> printLabels e s = s\<lparr>alerts := alerts s @ [msg]\<rparr>)
      \<and> calls (printLabels e s) = calls s"
    if "label s = None \<or> printerSelect_value s = [] \<or> parseInt (printQuantity_value s) = None
        \<or> (\<exists>quantity. parseInt (printQuantity_value s) = Some quantity \<and> quantity < 1)"
    using printLabels_blocked [OF that, of e] by (auto simp: alert_def)
  have invoked: "\<exists>l quantity. label s = Some l \<and> printerSelect_value s \<noteq> []
         \<and> parseInt (printQuantity_value s) = Some quantity \<and> 1 \<le> quantity
         \<and> calls (printLabels e s) =
             calls s @ [Print (syncPrint (initialValues s) (labelForm s) l)
                          (printerSelect_value s) (LabelWriterPrintParams quantity) []]"
    if changed: "calls (printLabels e s) \<noteq> calls s" and params: "hasPrintParamsXml e"
  proof -
    have unchanged: "calls (printLabels e s) = calls s"
      if "label s = None \<or> printerSelect_value s = [] \<or> parseInt (printQuantity_value s) = None
        \<or> (\<exists>quantity. parseInt (printQuantity_value s) = Some quantity \<and> quantity < 1)"
      using blocked [OF that] by simp
    have "\<not> (label s = None \<or> printerSelect_value s = [] \<or> parseInt (printQuantity_value s) = None
        \<or> (\<exists>quantity. parseInt (printQuantity_value s) = Some quantity \<and> quantity < 1))"
    proof
      assume "label s = None \<or> printerSelect_value s = [] \<or> parseInt (printQuantity_value s) = None
        \<or> (\<exists>quantity. parseInt (printQuantity_value s) = Some quantity \<and> quantity < 1)"
      from unchanged [OF this] changed show False by simp
    qed
    then have loaded: "label s \<noteq> None" and printer: "printerSelect_value s \<noteq> []"
      and number: "parseInt (printQuantity_value s) \<noteq> None"
      and positive: "\<forall>quantity. parseInt (printQuantity_value s) = Some quantity \<longrightarrow> 1 \<le> quantity"
      by (simp_all add: not_less)
    from loaded obtain l where l: "label s = Some l" by (cases "label s") simp_all
    from number obtain quantity where q: "parseInt (printQuantity_value s) = Some quantity"
      by (cases "parseInt (printQuantity_value s)") simp_all
    from positive q have "1 \<le> quantity" by simp
    from printLabels_valid [OF l printer q this, of e] params
    have "calls (printLabels e s) =
             calls s @ [Print (syncPrint (initialValues s) (labelForm s) l)
                          (printerSelect_value s) (LabelWriterPrintParams quantity) []]" by simp
    with l printer q \<open>1 \<le> quantity\<close> show ?thesis by blast
  qed
  from blocked invoked show ?thesis by (intro conjI impI) blast+
qed


theorem print_validation_witness:
  "parseInt ''0'' = Some 0 \<and> parseInt ''abc'' = None
   \<and> calls (printLabels exampleEnv (editedApp\<lparr>printQuantity_value := ''0''\<rparr>)) =
       calls (editedApp\<lparr>printQuantity_value := ''0''\<rparr>)
   \<and> alerts (printLabels exampleEnv (editedApp\<lparr>printQuantity_value := ''0''\<rparr>)) =
       [''Please enter a valid quantity'']
   \<and> calls (printLabels exampleEnv (editedApp\<lparr>printQuantity_value := ''abc''\<rparr>)) =
       calls (editedApp\<lparr>printQuantity_value := ''abc''\<rparr>)
   \<and> calls (printLabels exampleEnv (editedApp\<lparr>printerSelect_value := []\<rparr>)) =
       calls (editedApp\<lparr>printerSelect_value := []\<rparr>)
   \<and> calls (printLabels exampleEnv (editedApp\<lparr>printQuantity_value := ''3''\<rparr>)) =
       calls editedApp @ [Print [(''Name'', Some ''Bob''), (''Logo'', Some [])]
                            ''DYMO LabelWriter 450'' (LabelWriterPrintParams 3) []]"
proof -
  have zero: "parseInt ''0'' = Some 0" and abc: "parseInt ''abc'' = None" by code_simp+
  have q0: "\<exists>quantity. parseInt (printQuantity_value (editedApp\<lparr>printQuantity_value := ''0''\<rparr>))
      = Some quantity \<and> quantity < 1"
    using zero by simp
  have qabc: "parseInt (printQuantity_value (editedApp\<lparr>printQuantity_value := ''abc''\<rparr>)) = None"
    using abc by simp
  have noprinter: "printerSelect_value (editedApp\<lparr>printerSelect_value := []\<rparr>) = []" by simp
  have message: "alerts (printLabels exampleEnv (editedApp\<lparr>printQuantity_value := ''0''\<rparr>)) =
       [''Please enter a valid quantity'']"
    by code_simp
  have valid: "calls (printLabels exampleEnv (editedApp\<lparr>printQuantity_value := ''3''\<rparr>)) =
       calls editedApp @ [Print [(''Name'', Some ''Bob''), (''Logo'', Some [])]
                            ''DYMO LabelWriter 450'' (LabelWriterPrintParams 3) []]"
    by code_simp
  from print_validation [of "editedApp\<lparr>printQuantity_value := ''0''\<rparr>" exampleEnv] q0
  have blocked0: "calls (printLabels exampleEnv (editedApp\<lparr>printQuantity_value := ''0''\<rparr>)) =
       calls (editedApp\<lparr>printQuantity_value := ''0''\<rparr>)" by blast
  from print_validation [of "editedApp\<lparr>printQuantity_value := ''abc''\<rparr>" exampleEnv] qabc
  have blockedabc: "calls (printLabels exampleEnv (editedApp\<lparr>printQuantity_value := ''abc''\<rparr>)) =
       calls (editedApp\<lparr>printQuantity_value := ''abc''\<rparr>)" by blast
  from print_validation [of "editedApp\<lparr>printerSelect_value := []\<rparr>" exampleEnv] noprinter
  have blockedprinter: "calls (printLabels exampleEnv (editedApp\<lparr>printerSelect_value := []\<rparr>)) =
       calls (editedApp\<lparr>printerSelect_value := []\<rparr>)" by blast
  from zero abc blocked0 message blockedabc blockedprinter valid show ?thesis
    by (intro conjI)
qed


text \<open>
  C10. With a label loaded and a printer selected, \<open>printLabels\<close> stops at the quantity
  check exactly when \<open>parseInt\<close> of the quantity string is \<open>NaN\<close> or below one. The strings
  \<open>2.5\<close> and \<open>3abc\<close> parse to 2 and 3, so they pass the check, and the print is called
  with 2 and 3 copies.
\<close>

theorem quantity_validation_by_parseInt:
  assumes loaded: "label s = Some l" and printer: "printerSelect_value s \<noteq> []"
  shows "(printLabels e s = alert ''Please enter a valid quantity'' s) =
           (parseInt (printQuantity_value s) = None
            \<or> (\<exists>quantity. parseInt (printQuantity_value s) = Some quantity \<and> quantity < 1))
         \<and> parseInt ''2.5'' = Some 2 \<and> parseInt ''3abc'' = Some 3
         \<and> (printQuantity_value s = ''2.5'' \<longrightarrow>
               calls (printLabels e s) =
                 calls s @ [Print (syncPrint (initialValues s) (labelForm s) l) (printerSelect_value s)
                   (if hasPrintParamsXml e then LabelWriterPrintParams 2 else NoParams) []])
         \<and> (printQuantity_value s = ''3abc'' \<longrightarrow>
               calls (printLabels e s) =
                 calls s @ [Print (syncPrint (initialValues s) (labelForm s) l) (printerSelect_value s)
                   (if hasPrintParamsXml e then LabelWriterPrintParams 3 else NoParams) []])"
proof -
  let ?invalid = "parseInt (printQuantity_value s) = None
      \<or> (\<exists>quantity. parseInt (printQuantity_value s) = Some quantity \<and> quantity < 1)"
  have blocked: "printLabels e s = alert ''Please enter a valid quantity'' s" if ?invalid
  proof -
    from that have "label s = None \<or> printerSelect_value s = []
        \<or> parseInt (printQuantity_value s) = None
        \<or> (\<exists>quantity. parseInt (printQuantity_value s) = Some quantity \<and> quantity < 1)"
      by blast
    from printLabels_blocked [OF this, of e] loaded printer show ?thesis by simp
  qed
  have passed: "printLabels e s \<noteq> alert ''Please enter a valid quantity'' s" if "\<not> ?invalid"
  proof -
    from that obtain quantity where q: "parseInt (printQuantity_value s) = Some quantity"
      by (cases "parseInt (printQuantity_value s)") simp_all
    with that have "1 \<le> quantity" by (simp add: not_less)
    from printLabels_valid [OF loaded printer q this, of e]
    have "calls (printLabels e s) \<noteq> calls s" by simp
    moreover have "calls (alert ''Please enter a valid quantity'' s) = calls s"
      by (simp add: alert_def)
    ultimately show ?thesis by auto
  qed
  have two: "parseInt ''2.5'' = Some 2" and three: "parseInt ''3abc'' = Some 3"
    by (rule parseInt_examples)+
  have "calls (printLabels e s) =
      calls s @ [Print (syncPrint (initialValues s) (labelForm s) l) (printerSelect_value s)
        (if hasPrintParamsXml e then LabelWriterPrintParams 2 else NoParams) []]"
    if "printQuantity_value s = ''2.5''"
    using printLabels_valid [OF loaded printer, of 2 e] two that by simp
  moreover have "calls (printLabels e s) =
      calls s @ [Print (syncPrint (initialValues s) (labelForm s) l) (printerSelect_value s)
        (if hasPrintParamsXml e then LabelWriterPrintParams 3 else NoParams) []]"
    if "printQuantity_value s = ''3abc''"
    using printLabels_valid [OF loaded printer, of 3 e] three that by simp
  moreover have "(printLabels e s = alert ''Please enter a valid quantity'' s) = ?invalid"
    using blocked passed by blast
  ultimately show ?thesis using two three by (intro conjI impI)
qed

theorem quantity_validation_by_parseInt_witness:
  "label editedApp = Some firstLabel \<and> printerSelect_value editedApp \<noteq> []
   \<and> calls (printLabels exampleEnv (editedApp\<lparr>printQuantity_value := ''2.5''\<rparr>)) =
       calls editedApp @ [Print [(''Name'', Some ''Bob''), (''Logo'', Some [])]
                            ''DYMO LabelWriter 450'' (LabelWriterPrintParams 2) []]
   \<and> status (printLabels exampleEnv (editedApp\<lparr>printQuantity_value := ''3abc''\<rparr>)) =
       (Connected, SentPrintJob 3 ''DYMO LabelWriter 450'')
   \<and> printLabels exampleEnv (editedApp\<lparr>printQuantity_value := ''-4''\<rparr>) =
       alert ''Please enter a valid quantity'' (editedApp\<lparr>printQuantity_value := ''-4''\<rparr>)"
proof -
  have loaded: "label editedApp = Some firstLabel" by code_simp
  have name: "printerSelect_value editedApp = ''DYMO LabelWriter 450''" by code_simp
  then have printer: "printerSelect_value editedApp \<noteq> []" by simp
  have synced: "syncPrint (initialValues editedApp) (labelForm editedApp) firstLabel =
      [(''Name'', Some ''Bob''), (''Logo'', Some [])]" by code_simp
  have params: "hasPrintParamsXml exampleEnv" by code_simp
  have negative: "parseInt ''-4'' = Some (- 4)" by code_simp
  have status3: "status (printLabels exampleEnv (editedApp\<lparr>printQuantity_value := ''3abc''\<rparr>)) =
       (Connected, SentPrintJob 3 ''DYMO LabelWriter 450'')" by code_simp
  from quantity_validation_by_parseInt
    [of "editedApp\<lparr>printQuantity_value := ''2.5''\<rparr>" firstLabel exampleEnv]
    loaded printer name synced params
  have two: "calls (printLabels exampleEnv (editedApp\<lparr>printQuantity_value := ''2.5''\<rparr>)) =
       calls editedApp @ [Print [(''Name'', Some ''Bob''), (''Logo'', Some [])]
                            ''DYMO LabelWriter 450'' (LabelWriterPrintParams 2) []]"
    by simp
  from quantity_validation_by_parseInt
    [of "editedApp\<lparr>printQuantity_value := ''-4''\<rparr>" firstLabel exampleEnv]
    loaded printer negative
  have blocked: "printLabels exampleEnv (editedApp\<lparr>printQuantity_value := ''-4''\<rparr>) =
       alert ''Please enter a valid quantity'' (editedApp\<lparr>printQuantity_value := ''-4''\<rparr>)"
    by simp
  from loaded printer two status3 blocked show ?thesis by (intro conjI)
qed


section \<open>Loading and clearing\<close>

lemma updatePreview_frame:
  "objectTypes (updatePreview e s) = objectTypes s
   \<and> initialValues (updatePreview e s) = initialValues s
   \<and> objectNames (updatePreview e s) = objectNames s
   \<and> labelForm (updatePreview e s) = labelForm s"
  by (simp add: updatePreview_def split: option.splits prod.splits sum.splits exn.splits)

lemma loadLabel_without_fields:
  assumes "openLabelXml e xml = Inr l" and "getObjectNames l = []"
  shows "labelForm (loadLabel e xml s) = labelForm s"
  using assms by (simp add: loadLabel_def Let_def updatePreview_frame)

lemma generateForm_reads:
  assumes "label s' = label s" and "objectTypes s' = objectTypes s"
  shows "labelForm (generateForm e names s') = labelForm (generateForm e names s)"
proof -
  have current: "currentValue s' = currentValue s"
    by (rule ext) (simp add: currentValue_def assms)
  have image: "isImage s' = isImage s"
    by (rule ext) (simp add: isImage_def typeOf_def assms)
  have "fieldMarkup s' = fieldMarkup s"
    unfolding fieldMarkup_def current image by (rule refl)
  then show ?thesis by (simp add: generateForm_def)
qed

lemma loadLabel_with_fields:
  assumes "openLabelXml e xml = Inr l" and "getObjectNames l \<noteq> []"
  shows "labelForm (loadLabel e xml (s\<lparr>labelForm := controls\<rparr>)) = labelForm (loadLabel e xml s)"
  using assms
  apply (simp add: loadLabel_def Let_def updatePreview_frame)
  apply (rule generateForm_reads)
   apply simp_all
  done

text \<open>
  C7. A second template with at least one field rebuilds the form whatever controls it
  held (\<open>loadLabel_with_fields\<close>); a second template without fields leaves the form as it
  was (\<open>loadLabel_without_fields\<close>). At the second load below the two controls of the first
  template are still in the form, and the pass of \<open>updatePreview\<close> has tried to write both
  into the new label, which rejected them.
\<close>

theorem second_load_keeps_first_controls:
  "openLabelXml exampleEnv secondXml = Inr []
   \<and> label (loadLabel exampleEnv secondXml editedApp) = Some []
   \<and> labelForm (loadLabel exampleEnv secondXml editedApp) = [logoToggle False, nameInput ''Bob'']
   \<and> console (loadLabel exampleEnv secondXml editedApp) =
       [''Could not set text for: Logo'', ''Could not set text for: Name'']"
  by (intro conjI; code_simp)

text \<open>
  After \<open>clearForm\<close> the kind map and the snapshots of the cleared template are still in
  the state.
\<close>

theorem clearForm_keeps_kinds_and_snapshots:
  "objectTypes (clearForm loadedApp) ''Logo'' = Some ''ImageObject''
   \<and> initialValues (clearForm loadedApp) ''Logo'' = Some ''ABC123''"
  by (intro conjI; code_simp)

text \<open>
  C9, amended. \<open>clearForm\<close> discards the label, the raw markup and the list of field names,
  empties the file picker and the preview image, and hides the form, the message, the
  preview, the print controls and the file error. It keeps the kind map and the snapshots.
  While no label is loaded \<open>updatePreview\<close> does nothing and \<open>printLabels\<close> only alerts, and
  the next successful load replaces both maps by those of the new template.
\<close>

theorem clearForm_discards_document:
  "label (clearForm s) = None \<and> labelXml (clearForm s) = None \<and> objectNames (clearForm s) = []
   \<and> labelFile_value (clearForm s) = [] \<and> previewImage_src (clearForm s) = []
   \<and> \<not> formCard_shown (clearForm s) \<and> \<not> noFieldsMessage_shown (clearForm s)
   \<and> \<not> previewCard_shown (clearForm s) \<and> \<not> printCard_shown (clearForm s)
   \<and> \<not> fileError_shown (clearForm s)
   \<and> objectTypes (clearForm s) = objectTypes s \<and> initialValues (clearForm s) = initialValues s
   \<and> updatePreview e (clearForm s) = clearForm s
   \<and> printLabels e (clearForm s) = alert ''No label loaded'' (clearForm s)
   \<and> (\<forall>xml l. openLabelXml e xml = Inr l \<longrightarrow>
         objectTypes (loadLabel e xml (clearForm s)) = fst (parseObjectTypes e xml)
         \<and> initialValues (loadLabel e xml (clearForm s)) =
             fold (storeInitialValue l) (getObjectNames l) Map.empty)"
proof -
  have discarded: "label (clearForm s) = None \<and> labelXml (clearForm s) = None
      \<and> objectNames (clearForm s) = []
      \<and> labelFile_value (clearForm s) = [] \<and> previewImage_src (clearForm s) = []
      \<and> \<not> formCard_shown (clearForm s) \<and> \<not> noFieldsMessage_shown (clearForm s)
      \<and> \<not> previewCard_shown (clearForm s) \<and> \<not> printCard_shown (clearForm s)
      \<and> \<not> fileError_shown (clearForm s)
      \<and> objectTypes (clearForm s) = objectTypes s \<and> initialValues (clearForm s) = initialValues s"
    by (simp add: clearForm_def)
  have preview: "updatePreview e (clearForm s) = clearForm s"
    using discarded by (simp add: updatePreview_def)
  have print: "printLabels e (clearForm s) = alert ''No label loaded'' (clearForm s)"
    using discarded by (simp add: printLabels_def)
  have reload: "objectTypes (loadLabel e xml (clearForm s)) = fst (parseObjectTypes e xml)
      \<and> initialValues (loadLabel e xml (clearForm s)) =
          fold (storeInitialValue l) (getObjectNames l) Map.empty"
    if "openLabelXml e xml = Inr l" for xml l
    using that by (simp add: loadLabel_def Let_def updatePreview_frame generateForm_def)
  from discarded preview print reload show ?thesis by blast
qed

theorem clearForm_discards_document_witness:
  "openLabelXml exampleEnv secondXml = Inr secondLabel
   \<and> label (clearForm loadedApp) = None
   \<and> calls (updatePreview exampleEnv (clearForm loadedApp)) = calls loadedApp
   \<and> calls (printLabels exampleEnv (clearForm loadedApp)) = calls loadedApp
   \<and> alerts (printLabels exampleEnv (clearForm loadedApp)) = [''No label loaded'']
   \<and> objectTypes (loadLabel exampleEnv secondXml (clearForm loadedApp)) ''Logo'' = None
   \<and> initialValues (loadLabel exampleEnv secondXml (clearForm loadedApp)) ''Logo'' = None"
proof -
  have opened: "openLabelXml exampleEnv secondXml = Inr secondLabel" by code_simp
  have kinds: "fst (parseObjectTypes exampleEnv secondXml) ''Logo'' = None" by code_simp
  have snapshots: "fold (storeInitialValue secondLabel) (getObjectNames secondLabel) Map.empty ''Logo''
      = None" by code_simp
  have before: "alerts loadedApp = []" by code_simp
  note inst = clearForm_discards_document [of loadedApp exampleEnv]
  from inst have cleared: "label (clearForm loadedApp) = None" by blast
  from inst have preview: "calls (updatePreview exampleEnv (clearForm loadedApp)) = calls loadedApp"
    by (simp add: clearForm_def)
  from inst have print: "calls (printLabels exampleEnv (clearForm loadedApp)) = calls loadedApp"
    by (simp add: clearForm_def alert_def)
  from inst before have message: "alerts (printLabels exampleEnv (clearForm loadedApp)) = [''No label loaded'']"
    by (simp add: clearForm_def alert_def)
  from inst opened kinds
  have kinds': "objectTypes (loadLabel exampleEnv secondXml (clearForm loadedApp)) ''Logo'' = None"
    by simp
  from inst opened snapshots
  have snapshots': "initialValues (loadLabel exampleEnv secondXml (clearForm loadedApp)) ''Logo'' = None"
    by simp
  from opened cleared preview print message kinds' snapshots' show ?thesis by (intro conjI)
qed


end
